theory Spec2Isabelle
  imports Complex_Main
begin

section \<open>Python values\<close>

text \<open>
  The two modules (\<^verbatim>\<open>geocoding.py\<close>, \<^verbatim>\<open>weather.py\<close>) move values decoded by
  \<^verbatim>\<open>json.loads\<close> into objects without checking their types, so the model keeps
  them as decoded values: \<open>JObj\<close> is a Python \<^verbatim>\<open>dict\<close> (an association list of
  distinct keys, read with \<open>map_of\<close>), \<open>JArr\<close> a \<^verbatim>\<open>list\<close>, \<open>JNull\<close> is
  \<^verbatim>\<open>None\<close>.

  Python's \<^verbatim>\<open>float\<close> is modelled by \<open>real\<close>: arithmetic is exact, the rounding of
  binary floating point is left out, and so are \<^verbatim>\<open>nan\<close> and the infinities.
\<close>

datatype json =
    JNull
  | JBool bool
  | JInt int
  | JFloat real
  | JStr string
  | JArr "json list"
  | JObj "(string \<times> json) list"

text \<open>
  Every exception the two modules can raise. \<open>ValueError v\<close> is \<^verbatim>\<open>ValueError(v)\<close>
  raised by the modules themselves, with its argument; \<open>MathDomainError\<close> and
  \<open>InvalidIsoformat\<close> are the \<^verbatim>\<open>ValueError\<close>s raised by \<^verbatim>\<open>math.sqrt\<close> and
  \<^verbatim>\<open>datetime.fromisoformat\<close>; \<open>HTTPError s\<close> is raised by
  \<^verbatim>\<open>Response.raise_for_status\<close> for status \<open>s\<close>; \<open>RequestException\<close> is whatever
  \<^verbatim>\<open>requests.get\<close> raises when it returns no response.
\<close>

datatype error =
    ValueError json
  | MathDomainError
  | InvalidIsoformat string
  | HTTPError nat
  | RequestException string
  | UnboundLocalError string
  | JSONDecodeError
  | AttributeError
  | KeyError json
  | IndexError
  | TypeError
  | AssertionError string

text \<open>Sequencing of two steps, the first of which may raise.\<close>

definition and_then :: "error + 'a \<Rightarrow> ('a \<Rightarrow> error + 'b) \<Rightarrow> error + 'b" where
  "and_then r f = (case r of Inl e \<Rightarrow> Inl e | Inr v \<Rightarrow> f v)"

text \<open>Truth value of an object in a condition (\<^verbatim>\<open>if v:\<close>, \<^verbatim>\<open>not v\<close>).\<close>

fun truthy :: "json \<Rightarrow> bool" where
  "truthy JNull = False"
| "truthy (JBool b) = b"
| "truthy (JInt i) = (i \<noteq> 0)"
| "truthy (JFloat r) = (r \<noteq> 0)"
| "truthy (JStr s) = (s \<noteq> [])"
| "truthy (JArr xs) = (xs \<noteq> [])"
| "truthy (JObj kvs) = (kvs \<noteq> [])"

text \<open>\<^verbatim>\<open>d.get(k)\<close>: \<^verbatim>\<open>None\<close> for a missing key; only a dict has the method.\<close>

fun py_get :: "json \<Rightarrow> string \<Rightarrow> error + json" where
  "py_get (JObj kvs) k = (case map_of kvs k of None \<Rightarrow> Inr JNull | Some v \<Rightarrow> Inr v)"
| "py_get _ k = Inl AttributeError"

text \<open>\<^verbatim>\<open>v['k']\<close> with a string key.\<close>

fun getitem :: "json \<Rightarrow> string \<Rightarrow> error + json" where
  "getitem (JObj kvs) k = (case map_of kvs k of None \<Rightarrow> Inl (KeyError (JStr k)) | Some v \<Rightarrow> Inr v)"
| "getitem _ k = Inl TypeError"

text \<open>\<^verbatim>\<open>v[0]\<close>: the keys of a decoded dict are strings, so \<^verbatim>\<open>0\<close> is never one.\<close>

fun getitem0 :: "json \<Rightarrow> error + json" where
  "getitem0 (JArr xs) = (case xs of [] \<Rightarrow> Inl IndexError | x # _ \<Rightarrow> Inr x)"
| "getitem0 (JStr s) = (case s of [] \<Rightarrow> Inl IndexError | c # _ \<Rightarrow> Inr (JStr [c]))"
| "getitem0 (JObj kvs) = Inl (KeyError (JInt 0))"
| "getitem0 _ = Inl TypeError"

text \<open>\<^verbatim>\<open>len(v)\<close>.\<close>

fun py_len :: "json \<Rightarrow> error + nat" where
  "py_len (JArr xs) = Inr (length xs)"
| "py_len (JStr s) = Inr (length s)"
| "py_len (JObj kvs) = Inr (length kvs)"
| "py_len _ = Inl TypeError"

text \<open>The elements \<^verbatim>\<open>map(f, v)\<close> visits: a dict yields its keys, a string its characters.\<close>

fun py_iter :: "json \<Rightarrow> error + json list" where
  "py_iter (JArr xs) = Inr xs"
| "py_iter (JStr s) = Inr (map (\<lambda>c. JStr [c]) s)"
| "py_iter (JObj kvs) = Inr (map (\<lambda>kv. JStr (fst kv)) kvs)"
| "py_iter _ = Inl TypeError"

text \<open>The operand of an arithmetic operator: \<^verbatim>\<open>bool\<close> is a subclass of \<^verbatim>\<open>int\<close>.\<close>

fun py_number :: "json \<Rightarrow> real option" where
  "py_number (JInt i) = Some (of_int i)"
| "py_number (JFloat r) = Some r"
| "py_number (JBool b) = Some (if b then 1 else 0)"
| "py_number _ = None"

text \<open>\<^verbatim>\<open>math.sqrt\<close> raises on a negative argument.\<close>

definition py_sqrt :: "real \<Rightarrow> error + real" where
  "py_sqrt v = (if v < 0 then Inl MathDomainError else Inr (sqrt v))"

text \<open>
  Rounding to the nearest integer, ties to the even one, as \<^verbatim>\<open>round\<close> and the
  \<^verbatim>\<open>.4f\<close> format do.
\<close>

definition round_half_even :: "real \<Rightarrow> int" where
  "round_half_even v =
     (let f = \<lfloor>v\<rfloor>; d = v - of_int f
      in if d < 1 / 2 then f else if 1 / 2 < d then f + 1 else if even f then f else f + 1)"

text \<open>\<^verbatim>\<open>round(v, 4)\<close> on a \<^verbatim>\<open>float\<close>: the nearest multiple of \<open>1/10000\<close>.\<close>

definition round4 :: "real \<Rightarrow> real" where
  "round4 v = of_int (round_half_even (v * 10000)) / 10000"

text \<open>\<^verbatim>\<open>round(v, 4)\<close>: an \<^verbatim>\<open>int\<close> (or \<^verbatim>\<open>bool\<close>) is returned as the same number.\<close>

fun py_round4 :: "json \<Rightarrow> error + real" where
  "py_round4 (JFloat r) = Inr (round4 r)"
| "py_round4 (JInt i) = Inr (of_int i)"
| "py_round4 (JBool b) = Inr (if b then 1 else 0)"
| "py_round4 _ = Inl TypeError"

section \<open>Forecast (weather.py)\<close>

type_synonym datetime = int \<comment> \<open>a point in time, in microseconds\<close>

record Forecast =
  name :: json
  start_time :: datetime
  end_time :: datetime
  is_daytime :: json
  temperature :: json
  temperature_unit :: json
  precipitation_prob :: json
  relative_humidity :: json
  dew_point :: json
  dew_point_unit :: json
  wind_speed :: json
  wind_speed_direction :: json
  short_forecast :: json
  detailed_forecast :: json

text \<open>
  \<^verbatim>\<open>Forecast.heat_index\<close> (weather.py, lines 57-79). The arithmetic raises
  \<^verbatim>\<open>TypeError\<close> when a field is not a number.
\<close>

definition heat_index :: "Forecast \<Rightarrow> error + real" where
  "heat_index self =
     (case (py_number (temperature self), py_number (relative_humidity self)) of
        (Some t, Some rh) \<Rightarrow>
          (let hi = 0.5 * (t + 61.0 + ((t - 68.0) * 1.2) + (rh * 0.094))
           in if hi \<ge> 80 then
                (let hi = -42.379 + 2.04901523*t + 10.14333127*rh - 0.22475541*t*rh
                          - 0.00683783*t*t - 0.05481717*rh*rh + 0.00122874*t*t*rh
                          + 0.00085282*t*rh*rh - 0.00000199*t*t*rh*rh
                 in if 80 \<le> t \<and> t \<le> 112 \<and> rh < 13 then
                      and_then (py_sqrt ((17 - \<bar>t - 95\<bar>) / 17))
                        (\<lambda>s. Inr (hi - ((13 - rh) / 4) * s))
                    else if rh > 85 \<and> 80 \<le> t \<and> t \<le> 87 then
                      Inr (hi + ((rh - 85) / 10) * ((87 - t) / 5))
                    else Inr hi)
              else Inr hi)
      | _ \<Rightarrow> Inl TypeError)"

section \<open>The HTTP client\<close>

text \<open>
  The world outside the program: the wall clock read by \<^verbatim>\<open>datetime.now()\<close>, and
  the requests issued so far, in order.
\<close>

record request =
  url :: string
  params :: "(string \<times> string) list"
  headers :: "(string \<times> string) list"

record world =
  clock :: datetime
  sent :: "request list"

text \<open>
  A response of \<^verbatim>\<open>requests\<close>: its status, its raw body \<^verbatim>\<open>r.content\<close>, and what
  \<^verbatim>\<open>json.loads\<close> makes of that body (\<open>None\<close> when it is not JSON).
\<close>

record response =
  status_code :: nat
  content :: string
  decoded :: "json option"

datatype outcome = Raises error | Returns response

text \<open>
  The network answers a request, given the world it is issued in, with an outcome and
  the time the exchange takes.
\<close>

type_synonym network = "world \<Rightarrow> request \<Rightarrow> outcome \<times> nat"

definition requests_get :: "network \<Rightarrow> request \<Rightarrow> world \<Rightarrow> outcome \<times> world" where
  "requests_get net rq w =
     (fst (net w rq), w\<lparr>clock := clock w + int (snd (net w rq)), sent := sent w @ [rq]\<rparr>)"

text \<open>
  \<^verbatim>\<open>Response.raise_for_status\<close> of the \<^verbatim>\<open>requests\<close> library raises \<^verbatim>\<open>HTTPError\<close> for
  a client error (400 to 499) or a server error (500 to 599), and for no other status.
\<close>

definition raise_for_status :: "response \<Rightarrow> error option" where
  "raise_for_status r =
     (if 400 \<le> status_code r \<and> status_code r < 600 then Some (HTTPError (status_code r))
      else None)"

definition json_loads :: "response \<Rightarrow> error + json" where
  "json_loads r = (case decoded r of None \<Rightarrow> Inl JSONDecodeError | Some j \<Rightarrow> Inr j)"

text \<open>
  The block that follows each of the three requests (geocoding.py lines 24-36,
  weather.py lines 115-127 and 141-153):
  \<^verbatim>\<open>
    try:
        r = requests.get(...)
        r.raise_for_status()
    except Exception as e:
        response = json.loads(r.content)
        if response.get("errors"):
            raise ValueError(response['errors'])
        else:
            raise e
    response = json.loads(r.content)
  \<close>
  When \<^verbatim>\<open>requests.get\<close> itself raises, \<^verbatim>\<open>r\<close> was never bound and the handler's
  \<^verbatim>\<open>r.content\<close> raises \<^verbatim>\<open>UnboundLocalError\<close>.
\<close>

definition checked_response :: "outcome \<Rightarrow> error + response \<times> json" where
  "checked_response out =
     (case out of
        Raises e \<Rightarrow> Inl (UnboundLocalError ''r'')
      | Returns r \<Rightarrow>
          (case raise_for_status r of
             Some e \<Rightarrow>
               and_then (json_loads r) (\<lambda>response.
               and_then (py_get response ''errors'') (\<lambda>errors.
                 if truthy errors then and_then (getitem response ''errors'') (\<lambda>v. Inl (ValueError v))
                 else Inl e))
           | None \<Rightarrow> and_then (json_loads r) (\<lambda>response. Inr (r, response))))"

section \<open>geocoding.py\<close>

record Coordinates =
  lat :: real
  long :: real

definition GEOCODER_FORMAT_URL :: string where
  "GEOCODER_FORMAT_URL = ''https://geocoding.geo.census.gov/geocoder/locations/address''"

text \<open>
  \<^verbatim>\<open>"{0}".format(b)\<close> for a \<^verbatim>\<open>bytes\<close> object \<open>b\<close> is its \<^verbatim>\<open>repr\<close>: the prefix
  \<^verbatim>\<open>b\<close>, a quote (double when the bytes hold a single quote and no double one), and
  the bytes, escaped outside printable ASCII.
\<close>

definition hex_digit :: "nat \<Rightarrow> char" where
  "hex_digit n = ''0123456789abcdef'' ! n"

definition repr_byte :: "char \<Rightarrow> char \<Rightarrow> string" where
  "repr_byte quote c =
     (if c = quote \<or> c = CHR 0x5C then [CHR 0x5C, c]
      else if c = CHR 0x09 then [CHR 0x5C, CHR ''t'']
      else if c = CHR 0x0A then [CHR 0x5C, CHR ''n'']
      else if c = CHR 0x0D then [CHR 0x5C, CHR ''r'']
      else if of_char c < (32::nat) \<or> (127::nat) \<le> of_char c then
        [CHR 0x5C, CHR ''x'', hex_digit (of_char c div 16), hex_digit (of_char c mod 16)]
      else [c])"

definition repr_bytes :: "string \<Rightarrow> string" where
  "repr_bytes b =
     (let quote = (if CHR 0x27 \<in> set b \<and> CHR 0x22 \<notin> set b then CHR 0x22 else CHR 0x27)
      in ''b'' @ [quote] @ concat (map (repr_byte quote) b) @ [quote])"

text \<open>The query of the lookup: the optional parts are sent only when not empty.\<close>

definition geocoder_request :: "string \<Rightarrow> string \<Rightarrow> string \<Rightarrow> string \<Rightarrow> request" where
  "geocoder_request address city state zip' =
     \<lparr>url = GEOCODER_FORMAT_URL,
      params = [(''format'', ''json''), (''benchmark'', ''2020''), (''street'', address)]
        @ filter (\<lambda>kv. length (snd kv) \<noteq> 0) [(''city'', city), (''state'', state), (''zip'', zip')],
      headers = []\<rparr>"

text \<open>\<^verbatim>\<open>get_coords_from_address\<close> (geocoding.py, lines 11-45).\<close>

definition get_coords_from_address ::
    "network \<Rightarrow> string \<Rightarrow> string \<Rightarrow> string \<Rightarrow> string \<Rightarrow> world \<Rightarrow> (error + Coordinates) \<times> world" where
  "get_coords_from_address net address city state zip' w =
     (let (out, w') = requests_get net (geocoder_request address city state zip') w
      in (and_then (checked_response out) (\<lambda>(r, response).
          and_then (py_get response ''result'') (\<lambda>result.
            if \<not> truthy result then
              Inl (ValueError (JStr (''Census geocoder returned unexpected JSON: '' @ repr_bytes (content r))))
            else
              and_then (py_get result ''addressMatches'') (\<lambda>matches.
              and_then (py_len matches) (\<lambda>n.
                if n = 0 then
                  Inl (ValueError (JStr (''Invalid address: '' @ address @ '' '' @ city @ '' '' @ state @ '' '' @ zip')))
                else
                  and_then (getitem0 matches) (\<lambda>m.
                  and_then (getitem m ''coordinates'') (\<lambda>raw_coords.
                  and_then (getitem raw_coords ''y'') (\<lambda>y.
                  and_then (py_round4 y) (\<lambda>la.
                  and_then (getitem raw_coords ''x'') (\<lambda>x.
                  and_then (py_round4 x) (\<lambda>lo.
                    Inr \<lparr>lat = la, long = lo\<rparr>)))))))))),
          w'))"

section \<open>weather.py\<close>

text \<open>
  The \<^verbatim>\<open>max_age\<close> of a \<^verbatim>\<open>LocationData\<close> or \<^verbatim>\<open>WeeklyForecast\<close> is declared
  \<^verbatim>\<open>int\<close> with default \<^verbatim>\<open>0\<close> and stored unchecked; the only other kind of value
  that \<^verbatim>\<open>is_expired\<close> can compare with a difference of two \<^verbatim>\<open>datetime\<close>s is a
  \<^verbatim>\<open>timedelta\<close> (here in microseconds).
\<close>

datatype max_age_value = PyInt int | PyTimedelta int

text \<open>
  \<^verbatim>\<open>datetime.now() - created > max_age\<close>: a \<^verbatim>\<open>timedelta\<close> is ordered against
  another \<^verbatim>\<open>timedelta\<close> only; against an \<^verbatim>\<open>int\<close> the comparison raises
  \<^verbatim>\<open>TypeError\<close>.
\<close>

definition elapsed_exceeds :: "datetime \<Rightarrow> datetime \<Rightarrow> max_age_value \<Rightarrow> error + bool" where
  "elapsed_exceeds now created' age =
     (case age of PyTimedelta d \<Rightarrow> Inr (now - created' > d) | PyInt i \<Rightarrow> Inl TypeError)"

subsection \<open>LocationData\<close>

record LocationData =
  loc_x :: json
  loc_y :: json
  cwa :: json
  weekly_forecast_url :: json
  hourly_forecast_url :: json
  forecast_grid_data_url :: json
  timezone :: json
  loc_max_age :: max_age_value
  loc_created :: datetime

text \<open>
  \<^verbatim>\<open>LocationData.__init__\<close> (lines 14-27); the fields \<^verbatim>\<open>x\<close>, \<^verbatim>\<open>y\<close>,
  \<^verbatim>\<open>max_age\<close> and \<^verbatim>\<open>created\<close> are \<open>loc_x\<close>, \<open>loc_y\<close>, \<open>loc_max_age\<close> and
  \<open>loc_created\<close> here. Each field is read as \<^verbatim>\<open>points_json['properties'][k]\<close>.
\<close>

definition LocationData_init :: "json \<Rightarrow> max_age_value \<Rightarrow> world \<Rightarrow> error + LocationData" where
  "LocationData_init points_json max_age w =
     (let prop = (\<lambda>k. and_then (getitem points_json ''properties'') (\<lambda>p. getitem p k))
      in and_then (prop ''gridX'') (\<lambda>gx.
         and_then (prop ''gridY'') (\<lambda>gy.
         and_then (prop ''cwa'') (\<lambda>c.
         and_then (prop ''forecast'') (\<lambda>wk.
         and_then (prop ''forecastHourly'') (\<lambda>hr.
         and_then (prop ''forecastGridData'') (\<lambda>gd.
         and_then (prop ''timeZone'') (\<lambda>tz.
           Inr \<lparr>loc_x = gx, loc_y = gy, cwa = c, weekly_forecast_url = wk,
                hourly_forecast_url = hr, forecast_grid_data_url = gd, timezone = tz,
                loc_max_age = max_age, loc_created = clock w\<rparr>))))))))"

text \<open>\<^verbatim>\<open>LocationData.is_expired\<close> (lines 30-31).\<close>

definition LocationData_is_expired :: "world \<Rightarrow> LocationData \<Rightarrow> error + bool" where
  "LocationData_is_expired w self = elapsed_exceeds (clock w) (loc_created self) (loc_max_age self)"

subsection \<open>Forecast\<close>

text \<open>
  \<^verbatim>\<open>datetime.fromisoformat\<close>: the parser of the standard library is a parameter
  \<open>parse\<close> (\<open>None\<close> for a string it rejects); any other argument than a string
  raises \<^verbatim>\<open>TypeError\<close>.
\<close>

definition fromisoformat :: "(string \<Rightarrow> datetime option) \<Rightarrow> json \<Rightarrow> error + datetime" where
  "fromisoformat parse v =
     (case v of
        JStr s \<Rightarrow> (case parse s of None \<Rightarrow> Inl (InvalidIsoformat s) | Some d \<Rightarrow> Inr d)
      | _ \<Rightarrow> Inl TypeError)"

text \<open>\<^verbatim>\<open>Forecast.__init__\<close> (lines 34-55).\<close>

definition Forecast_init :: "(string \<Rightarrow> datetime option) \<Rightarrow> json \<Rightarrow> error + Forecast" where
  "Forecast_init parse forecast_json =
     and_then (getitem forecast_json ''name'') (\<lambda>nm.
     and_then (getitem forecast_json ''startTime'') (\<lambda>st.
     and_then (fromisoformat parse st) (\<lambda>start.
     and_then (getitem forecast_json ''endTime'') (\<lambda>et.
     and_then (fromisoformat parse et) (\<lambda>end'.
     and_then (getitem forecast_json ''isDaytime'') (\<lambda>dt.
     and_then (getitem forecast_json ''temperature'') (\<lambda>t.
     and_then (getitem forecast_json ''temperatureUnit'') (\<lambda>tu.
     and_then (and_then (getitem forecast_json ''probabilityOfPrecipitation'') (\<lambda>p. getitem p ''value'')) (\<lambda>pp.
     and_then (and_then (getitem forecast_json ''relativeHumidity'') (\<lambda>p. getitem p ''value'')) (\<lambda>rh.
     and_then (and_then (getitem forecast_json ''dewpoint'') (\<lambda>p. getitem p ''value'')) (\<lambda>dp.
     and_then (and_then (getitem forecast_json ''dewpoint'') (\<lambda>p. getitem p ''unitCode'')) (\<lambda>du.
     and_then (getitem forecast_json ''windSpeed'') (\<lambda>ws.
     and_then (getitem forecast_json ''windDirection'') (\<lambda>wd.
     and_then (getitem forecast_json ''shortForecast'') (\<lambda>sf.
     and_then (getitem forecast_json ''detailedForecast'') (\<lambda>df.
       Inr \<lparr>name = nm, start_time = start, end_time = end', is_daytime = dt,
            temperature = t, temperature_unit = tu, precipitation_prob = pp,
            relative_humidity = rh, dew_point = dp, dew_point_unit = du,
            wind_speed = ws, wind_speed_direction = wd, short_forecast = sf,
            detailed_forecast = df\<rparr>))))))))))))))))"

subsection \<open>WeeklyForecast\<close>

record WeeklyForecast =
  forecasts :: "Forecast list"
  max_age :: max_age_value
  created :: datetime

text \<open>\<^verbatim>\<open>list(map(f, xs))\<close> where \<open>f\<close> may raise: the first exception ends the loop.\<close>

fun map_raising :: "('a \<Rightarrow> error + 'b) \<Rightarrow> 'a list \<Rightarrow> error + 'b list" where
  "map_raising f [] = Inr []"
| "map_raising f (x # xs) =
     and_then (f x) (\<lambda>y. and_then (map_raising f xs) (\<lambda>ys. Inr (y # ys)))"

text \<open>\<^verbatim>\<open>WeeklyForecast.__init__\<close> (lines 85-89).\<close>

definition WeeklyForecast_init ::
    "(string \<Rightarrow> datetime option) \<Rightarrow> json \<Rightarrow> max_age_value \<Rightarrow> world \<Rightarrow> error + WeeklyForecast" where
  "WeeklyForecast_init parse forecast_json max_age' w =
     and_then (getitem forecast_json ''properties'') (\<lambda>p.
     and_then (getitem p ''periods'') (\<lambda>periods.
     and_then (py_iter periods) (\<lambda>ps.
     and_then (map_raising (Forecast_init parse) ps) (\<lambda>fs.
       Inr \<lparr>forecasts = fs, max_age = max_age', created = clock w\<rparr>))))"

text \<open>\<^verbatim>\<open>WeeklyForecast.is_expired\<close> (lines 91-92).\<close>

definition is_expired :: "world \<Rightarrow> WeeklyForecast \<Rightarrow> error + bool" where
  "is_expired w self = elapsed_exceeds (clock w) (created self) (max_age self)"

text \<open>\<^verbatim>\<open>WeeklyForecast.today\<close> (lines 100-101): \<^verbatim>\<open>self.forecasts[0]\<close>.\<close>

definition today :: "WeeklyForecast \<Rightarrow> error + Forecast" where
  "today self = (case forecasts self of [] \<Rightarrow> Inl IndexError | f # _ \<Rightarrow> Inr f)"

subsection \<open>NWSClient\<close>

text \<open>Decimal digits of a natural number, and a number padded to four digits.\<close>

definition digit :: "nat \<Rightarrow> char" where
  "digit n = ''0123456789'' ! n"

fun digits :: "nat \<Rightarrow> string" where
  "digits n = (if n < 10 then [digit n] else digits (n div 10) @ [digit (n mod 10)])"

declare digits.simps [simp del]

definition four_digits :: "nat \<Rightarrow> string" where
  "four_digits n =
     [digit (n div 1000 mod 10), digit (n div 100 mod 10), digit (n div 10 mod 10), digit (n mod 10)]"

text \<open>The format \<^verbatim>\<open>{:.4f}\<close>: sign, integer part, point, four decimals.\<close>

definition format_4f :: "real \<Rightarrow> string" where
  "format_4f v =
     (let n = nat (round_half_even (\<bar>v\<bar> * 10000))
      in (if v < 0 then ''-'' else []) @ digits (n div 10000) @ ''.'' @ four_digits (n mod 10000))"

text \<open>\<^verbatim>\<open>POINTS_API_URL.format(lat, long)\<close>.\<close>

definition POINTS_API_URL_format :: "real \<Rightarrow> real \<Rightarrow> string" where
  "POINTS_API_URL_format la lo =
     ''https://api.weather.gov/points/'' @ format_4f la @ '','' @ format_4f lo"

record NWSClient =
  user_agent :: string

text \<open>
  \<^verbatim>\<open>NWSClient.__init__\<close> (lines 104-107), whose \<^verbatim>\<open>assert\<close> is executed as
  it is by default; \<open>None\<close> is Python's \<^verbatim>\<open>None\<close>. The constructor touches neither
  the clock nor the network.
\<close>

definition NWSClient_init :: "string option \<Rightarrow> error + NWSClient" where
  "NWSClient_init ua =
     (case ua of
        None \<Rightarrow> Inl (AssertionError ''The NWS API requires a User-Agent string!'')
      | Some s \<Rightarrow>
          if s \<noteq> [] then Inr \<lparr>user_agent = s\<rparr>
          else Inl (AssertionError ''The NWS API requires a User-Agent string!''))"

text \<open>\<^verbatim>\<open>NWSClient.get_location_data\<close> (lines 109-129).\<close>

definition get_location_data ::
    "network \<Rightarrow> NWSClient \<Rightarrow> Coordinates \<Rightarrow> world \<Rightarrow> (error + LocationData) \<times> world" where
  "get_location_data net self coords w =
     (let url_string = POINTS_API_URL_format (lat coords) (long coords);
          (out, w') = requests_get net
             \<lparr>url = url_string, params = [], headers = [(''User-Agent'', user_agent self)]\<rparr> w
      in (and_then (checked_response out) (\<lambda>(r, response).
            LocationData_init response (PyInt 0) w'),
          w'))"

text \<open>
  \<^verbatim>\<open>NWSClient.get_weekly_forecast\<close> (lines 131-155). A \<^verbatim>\<open>WeeklyForecast\<close> defines
  neither \<^verbatim>\<open>__bool__\<close> nor \<^verbatim>\<open>__len__\<close>, so \<^verbatim>\<open>cached_result\<close> is false in the
  condition only when it is \<^verbatim>\<open>None\<close>. \<^verbatim>\<open>requests.get\<close> raises before it sends
  anything when the URL is not a string with a scheme, which no other decoded value
  than a string can be; the handler then finds \<^verbatim>\<open>r\<close> unbound.
\<close>

definition get_weekly_forecast ::
    "network \<Rightarrow> (string \<Rightarrow> datetime option) \<Rightarrow> NWSClient \<Rightarrow> Coordinates \<Rightarrow> WeeklyForecast option
       \<Rightarrow> world \<Rightarrow> (error + WeeklyForecast) \<times> world" where
  "get_weekly_forecast net parse self coords cached_result w =
     (case (case cached_result of
              None \<Rightarrow> Inr None
            | Some c \<Rightarrow> and_then (is_expired w c) (\<lambda>e. Inr (if \<not> e then Some c else None))) of
        Inl e \<Rightarrow> (Inl e, w)
      | Inr (Some c) \<Rightarrow> (Inr c, w)
      | Inr None \<Rightarrow>
          (case get_location_data net self coords w of
             (Inl e, w1) \<Rightarrow> (Inl e, w1)
           | (Inr loc_data, w1) \<Rightarrow>
               (case weekly_forecast_url loc_data of
                  JStr weekly_url \<Rightarrow>
                    (let (out, w2) = requests_get net
                           \<lparr>url = weekly_url, params = [], headers = [(''User-Agent'', user_agent self)]\<rparr> w1
                     in (and_then (checked_response out) (\<lambda>(r, response).
                           WeeklyForecast_init parse response (PyInt 0) w2),
                         w2))
                | _ \<Rightarrow> (Inl (UnboundLocalError ''r''), w1))))"

section \<open>The specification's formulas\<close>




section \<open>Sample inputs\<close>

text \<open>A forecast period with the given temperature and relative humidity.\<close>

definition sample_forecast :: "json \<Rightarrow> json \<Rightarrow> Forecast" where
  "sample_forecast t rh =
     \<lparr>name = JStr ''Today'', start_time = 0, end_time = 43200000000, is_daytime = JBool True,
      temperature = t, temperature_unit = JStr ''F'', precipitation_prob = JInt 20,
      relative_humidity = rh, dew_point = JFloat 12.5, dew_point_unit = JStr ''wmoUnit:degC'',
      wind_speed = JStr ''10 mph'', wind_speed_direction = JStr ''SW'',
      short_forecast = JStr ''Sunny'', detailed_forecast = JStr ''Sunny, with a high near 70.''\<rparr>"

text \<open>A world in which nothing was sent yet, and networks that answer by a script.\<close>

definition world0 :: world where
  "world0 = \<lparr>clock = 1720080000000000, sent = []\<rparr>"

definition always :: "outcome \<Rightarrow> network" where
  "always out = (\<lambda>w rq. (out, 250000))"

definition in_turn :: "outcome \<Rightarrow> outcome \<Rightarrow> network" where
  "in_turn first second = (\<lambda>w rq. (if sent w = [] then first else second, 250000))"



definition no_match_reply :: response where
  \<open>no_match_reply =
     \<lparr>status_code = 200, content = ''{"result": {"addressMatches": []}}'',
      decoded = Some (JObj [(''result'', JObj [(''addressMatches'', JArr [])])])\<rparr>\<close>



definition points_body :: json where
  "points_body =
     JObj [(''properties'', JObj
        [(''cwa'', JStr ''LWX''), (''gridX'', JInt 97), (''gridY'', JInt 71),
         (''forecast'', JStr ''https://api.weather.gov/gridpoints/LWX/97,71/forecast''),
         (''forecastHourly'', JStr ''https://api.weather.gov/gridpoints/LWX/97,71/forecast/hourly''),
         (''forecastGridData'', JStr ''https://api.weather.gov/gridpoints/LWX/97,71''),
         (''timeZone'', JStr ''America/New_York'')])]"

definition points_reply :: response where
  \<open>points_reply =
     \<lparr>status_code = 200,
      content = ''{"properties": {"cwa": "LWX", "gridX": 97, "gridY": 71, '' @
        ''"forecast": "https://api.weather.gov/gridpoints/LWX/97,71/forecast", '' @
        ''"forecastHourly": "https://api.weather.gov/gridpoints/LWX/97,71/forecast/hourly", '' @
        ''"forecastGridData": "https://api.weather.gov/gridpoints/LWX/97,71", '' @
        ''"timeZone": "America/New_York"}}'',
      decoded = Some points_body\<rparr>\<close>

definition period_json :: json where
  "period_json =
     JObj [(''name'', JStr ''Today''),
           (''startTime'', JStr ''2024-07-04T06:00:00-04:00''),
           (''endTime'', JStr ''2024-07-04T18:00:00-04:00''),
           (''isDaytime'', JBool True),
           (''temperature'', JInt 91), (''temperatureUnit'', JStr ''F''),
           (''probabilityOfPrecipitation'', JObj [(''unitCode'', JStr ''wmoUnit:percent''), (''value'', JInt 20)]),
           (''relativeHumidity'', JObj [(''unitCode'', JStr ''wmoUnit:percent''), (''value'', JInt 60)]),
           (''dewpoint'', JObj [(''unitCode'', JStr ''wmoUnit:degC''), (''value'', JFloat 22.5)]),
           (''windSpeed'', JStr ''10 mph''), (''windDirection'', JStr ''SW''),
           (''shortForecast'', JStr ''Sunny''),
           (''detailedForecast'', JStr ''Sunny, with a high near 91.'')]"

definition forecast_body :: "json list \<Rightarrow> json" where
  "forecast_body ps = JObj [(''properties'', JObj [(''periods'', JArr ps)])]"

definition forecast_reply :: response where
  \<open>forecast_reply =
     \<lparr>status_code = 200,
      content = ''{"properties": {"periods": [{"name": "Today", '' @
        ''"startTime": "2024-07-04T06:00:00-04:00", "endTime": "2024-07-04T18:00:00-04:00", '' @
        ''"isDaytime": true, "temperature": 91, "temperatureUnit": "F", '' @
        ''"probabilityOfPrecipitation": {"unitCode": "wmoUnit:percent", "value": 20}, '' @
        ''"relativeHumidity": {"unitCode": "wmoUnit:percent", "value": 60}, '' @
        ''"dewpoint": {"unitCode": "wmoUnit:degC", "value": 22.5}, '' @
        ''"windSpeed": "10 mph", "windDirection": "SW", "shortForecast": "Sunny", '' @
        ''"detailedForecast": "Sunny, with a high near 91."}]}}'',
      decoded = Some (forecast_body [period_json])\<rparr>\<close>

definition sample_parse :: "string \<Rightarrow> datetime option" where
  "sample_parse s =
     (if s = ''2024-07-04T06:00:00-04:00'' then Some 1720087200000000
      else if s = ''2024-07-04T18:00:00-04:00'' then Some 1720130400000000
      else None)"

definition white_house :: Coordinates where
  "white_house = \<lparr>lat = 38.8977, long = -77.0365\<rparr>"

definition sample_client :: NWSClient where
  "sample_client = \<lparr>user_agent = ''pynws-check (ops@example.org)''\<rparr>"

text \<open>
  A forecast obtained a minute before \<open>world0\<close>, with the given \<^verbatim>\<open>max_age\<close>, and a
  network on which every request fails.
\<close>

definition cached_forecast :: "max_age_value \<Rightarrow> WeeklyForecast" where
  "cached_forecast age =
     \<lparr>forecasts = [sample_forecast (JInt 91) (JInt 60)], max_age = age, created = 1720079940000000\<rparr>"

definition unreachable :: network where
  "unreachable = always (Raises (RequestException ''Network is unreachable''))"

section \<open>Properties\<close>

subsection \<open>Heat index\<close>



text \<open>
  C2, as amended. For a forecast with temperature 70 and relative humidity 50,
  \<open>heat_index\<close> takes the base-formula branch only and returns
  \<open>0.5 * (70 + 61 + (70 - 68) * 1.2 + 50 * 0.094)\<close>, which is 69.05 (below 80), not 70.2.
\<close>

theorem heat_index_70_50:
  assumes "temperature f = JInt 70" and "relative_humidity f = JInt 50"
  shows "heat_index f = Inr (0.5 * (70 + 61 + (70 - 68) * 1.2 + 50 * 0.094))
         \<and> 0.5 * (70 + 61 + (70 - 68) * 1.2 + 50 * 0.094) = (69.05 :: real)
         \<and> (69.05 :: real) < 80"
  by (simp add: heat_index_def assms)

theorem heat_index_70_50_witness:
  "heat_index (sample_forecast (JInt 70) (JInt 50)) = Inr 69.05"
  using heat_index_70_50 [of "sample_forecast (JInt 70) (JInt 50)"]
  by (simp add: sample_forecast_def)

text \<open>C2 as stated fails: the value returned at 70 and 50 is not 70.2.\<close>

theorem heat_index_70_50_not_70_2:
  "heat_index (sample_forecast (JInt 70) (JInt 50)) \<noteq> Inr 70.2"
  by (simp add: heat_index_def sample_forecast_def)

subsection \<open>Rounding\<close>






subsection \<open>Requests and the error block\<close>

lemma requests_get_fst: "fst (requests_get net rq w) = fst (net w rq)"
  by (simp add: requests_get_def)

lemma requests_get_sent: "sent (snd (requests_get net rq w)) = sent w @ [rq]"
  by (simp add: requests_get_def)

lemma checked_response_ok:
  "raise_for_status r = None \<Longrightarrow> decoded r = Some j \<Longrightarrow> checked_response (Returns r) = Inr (r, j)"
  by (simp add: checked_response_def json_loads_def and_then_def)

subsection \<open>Geocoding\<close>



text \<open>
  C4. When the geocoder's response is successful and has a \<^verbatim>\<open>result\<close> whose
  \<^verbatim>\<open>addressMatches\<close> is the empty list, \<open>get_coords_from_address\<close> raises the
  \<^verbatim>\<open>ValueError\<close> whose message is \<^verbatim>\<open>Invalid address:\<close> followed by the street,
  city, state and zip that were submitted; it does not raise \<^verbatim>\<open>IndexError\<close>.
\<close>

theorem empty_matches_invalid_address:
  assumes "fst (net w (geocoder_request address city state zip')) = Returns r"
    and "raise_for_status r = None"
    and "decoded r = Some (JObj obj)"
    and "map_of obj ''result'' = Some (JObj res)"
    and "map_of res ''addressMatches'' = Some (JArr [])"
  shows "fst (get_coords_from_address net address city state zip' w) =
           Inl (ValueError (JStr (''Invalid address: '' @ address @ '' '' @ city @ '' '' @ state @ '' '' @ zip')))
         \<and> fst (get_coords_from_address net address city state zip' w) \<noteq> Inl IndexError"
proof -
  have res: "res \<noteq> []" using assms(4,5) by auto
  show ?thesis
    using assms res
    by (simp add: get_coords_from_address_def split_def requests_get_fst checked_response_ok
        and_then_def)
qed

theorem empty_matches_invalid_address_witness:
  "fst (get_coords_from_address (always (Returns no_match_reply))
          ''1 Nowhere Road'' ''Springfield'' ''ZZ'' ''00000'' world0) =
     Inl (ValueError (JStr ''Invalid address: 1 Nowhere Road Springfield ZZ 00000''))"
  using empty_matches_invalid_address
    [where net = "always (Returns no_match_reply)" and w = world0
       and address = "''1 Nowhere Road''" and city = "''Springfield''" and state = "''ZZ''"
       and zip' = "''00000''" and r = no_match_reply
       and obj = "[(''result'', JObj [(''addressMatches'', JArr [])])]"
       and res = "[(''addressMatches'', JArr [])]"]
  by (simp add: always_def no_match_reply_def raise_for_status_def)

subsection \<open>The weather client: auxiliary facts\<close>



lemma get_location_data_sent:
  "sent (snd (get_location_data net self coords w)) =
     sent w @ [\<lparr>url = POINTS_API_URL_format (lat coords) (long coords), params = [],
                headers = [(''User-Agent'', user_agent self)]\<rparr>]"
  by (simp add: get_location_data_def Let_def split_def requests_get_sent)

text \<open>The part of \<open>get_weekly_forecast\<close> after the test of the cache.\<close>

lemma get_weekly_forecast_fetch:
  assumes "cached = None \<or> (\<exists>c. cached = Some c \<and> is_expired w c = Inr True)"
  shows "get_weekly_forecast net parse self coords cached w =
     (case get_location_data net self coords w of
             (Inl e, w1) \<Rightarrow> (Inl e, w1)
           | (Inr loc_data, w1) \<Rightarrow>
               (case weekly_forecast_url loc_data of
                  JStr weekly_url \<Rightarrow>
                    (let (out, w2) = requests_get net
                           \<lparr>url = weekly_url, params = [], headers = [(''User-Agent'', user_agent self)]\<rparr> w1
                     in (and_then (checked_response out) (\<lambda>(r, response).
                           WeeklyForecast_init parse response (PyInt 0) w2),
                         w2))
                | _ \<Rightarrow> (Inl (UnboundLocalError ''r''), w1)))"
  using assms by (auto simp add: get_weekly_forecast_def and_then_def)

lemma get_weekly_forecast_cached:
  "is_expired w c = Inr False \<Longrightarrow> get_weekly_forecast net parse self coords (Some c) w = (Inr c, w)"
  by (simp add: get_weekly_forecast_def and_then_def)

lemma get_weekly_forecast_raised:
  "is_expired w c = Inl e \<Longrightarrow> get_weekly_forecast net parse self coords (Some c) w = (Inl e, w)"
  by (simp add: get_weekly_forecast_def and_then_def)

lemma and_then_Inr: "and_then r f = Inr v \<longleftrightarrow> (\<exists>a. r = Inr a \<and> f a = Inr v)"
  by (cases r) (simp_all add: and_then_def)

lemma WeeklyForecast_init_fields:
  "WeeklyForecast_init parse j age w = Inr fc \<Longrightarrow> max_age fc = age \<and> created fc = clock w"
  by (auto simp add: WeeklyForecast_init_def and_then_Inr)

lemma get_weekly_forecast_sent:
  "\<exists>rs. sent (snd (get_weekly_forecast net parse self coords cached w)) = sent w @ rs
        \<and> list_all (\<lambda>rq. headers rq = [(''User-Agent'', user_agent self)]) rs"
proof (cases "cached = None \<or> (\<exists>c. cached = Some c \<and> is_expired w c = Inr True)")
  case True
  obtain res w1 where loc: "get_location_data net self coords w = (res, w1)"
    by (cases "get_location_data net self coords w")
  then have w1: "sent w1 = sent w @ [\<lparr>url = POINTS_API_URL_format (lat coords) (long coords),
                    params = [], headers = [(''User-Agent'', user_agent self)]\<rparr>]"
    using get_location_data_sent [of net self coords w] by simp
  show ?thesis
    unfolding get_weekly_forecast_fetch [OF True] loc
    using w1
    by (auto simp add: Let_def split_def requests_get_sent split: sum.splits json.splits)
next
  case False
  then obtain c where c: "cached = Some c" and ne: "is_expired w c \<noteq> Inr True"
    by (cases cached) auto
  show ?thesis
  proof (cases "is_expired w c")
    case (Inl e)
    then show ?thesis by (simp add: c get_weekly_forecast_raised)
  next
    case (Inr b)
    with ne have "is_expired w c = Inr False" by simp
    then show ?thesis by (simp add: c get_weekly_forecast_cached)
  qed
qed

text \<open>The model run on the sample inputs.\<close>

lemma sample_location:
  "get_location_data (in_turn (Returns points_reply) second) sample_client white_house world0 =
     (Inr \<lparr>loc_x = JInt 97, loc_y = JInt 71, cwa = JStr ''LWX'',
           weekly_forecast_url = JStr ''https://api.weather.gov/gridpoints/LWX/97,71/forecast'',
           hourly_forecast_url = JStr ''https://api.weather.gov/gridpoints/LWX/97,71/forecast/hourly'',
           forecast_grid_data_url = JStr ''https://api.weather.gov/gridpoints/LWX/97,71'',
           timezone = JStr ''America/New_York'', loc_max_age = PyInt 0,
           loc_created = 1720080000250000\<rparr>,
      \<lparr>clock = 1720080000250000,
       sent = [\<lparr>url = POINTS_API_URL_format (lat white_house) (long white_house), params = [],
                headers = [(''User-Agent'', user_agent sample_client)]\<rparr>]\<rparr>)"
  by (simp add: get_location_data_def requests_get_def in_turn_def world0_def points_reply_def
      points_body_def checked_response_def raise_for_status_def json_loads_def and_then_def
      LocationData_init_def)

lemma sample_period:
  "Forecast_init sample_parse period_json =
     Inr \<lparr>name = JStr ''Today'', start_time = 1720087200000000, end_time = 1720130400000000,
          is_daytime = JBool True, temperature = JInt 91, temperature_unit = JStr ''F'',
          precipitation_prob = JInt 20, relative_humidity = JInt 60, dew_point = JFloat 22.5,
          dew_point_unit = JStr ''wmoUnit:degC'', wind_speed = JStr ''10 mph'',
          wind_speed_direction = JStr ''SW'', short_forecast = JStr ''Sunny'',
          detailed_forecast = JStr ''Sunny, with a high near 91.''\<rparr>"
  by (simp add: Forecast_init_def period_json_def and_then_def fromisoformat_def sample_parse_def)

lemma sample_weekly_forecast:
  "get_weekly_forecast (in_turn (Returns points_reply) (Returns forecast_reply))
     sample_parse sample_client white_house None world0 =
     (Inr \<lparr>forecasts = [\<lparr>name = JStr ''Today'', start_time = 1720087200000000, end_time = 1720130400000000,
          is_daytime = JBool True, temperature = JInt 91, temperature_unit = JStr ''F'',
          precipitation_prob = JInt 20, relative_humidity = JInt 60, dew_point = JFloat 22.5,
          dew_point_unit = JStr ''wmoUnit:degC'', wind_speed = JStr ''10 mph'',
          wind_speed_direction = JStr ''SW'', short_forecast = JStr ''Sunny'',
          detailed_forecast = JStr ''Sunny, with a high near 91.''\<rparr>],
           max_age = PyInt 0, created = 1720080000500000\<rparr>,
      \<lparr>clock = 1720080000500000,
       sent = [\<lparr>url = POINTS_API_URL_format (lat white_house) (long white_house), params = [],
                headers = [(''User-Agent'', user_agent sample_client)]\<rparr>,
               \<lparr>url = ''https://api.weather.gov/gridpoints/LWX/97,71/forecast'', params = [],
                headers = [(''User-Agent'', user_agent sample_client)]\<rparr>]\<rparr>)"
  unfolding get_weekly_forecast_def sample_location
  by (simp add: requests_get_def in_turn_def
      forecast_reply_def forecast_body_def checked_response_def raise_for_status_def
      json_loads_def and_then_def WeeklyForecast_init_def sample_period)

lemma sample_points_url:
  "POINTS_API_URL_format (lat white_house) (long white_house) =
     ''https://api.weather.gov/points/38.8977,-77.0365''"
  by (simp add: POINTS_API_URL_format_def format_4f_def white_house_def round_half_even_def
      digits.simps four_digits_def digit_def)

subsection \<open>HTTP errors\<close>




subsection \<open>The cache and expiry\<close>

text \<open>
  C6. When \<open>get_weekly_forecast\<close> is given a cached forecast whose own \<open>is_expired\<close>
  returns false, it returns that forecast and leaves the world as it was: nothing is
  added to the requests sent, whatever the network would answer.
\<close>

theorem fresh_cache_short_circuits:
  assumes "is_expired w c = Inr False"
  shows "get_weekly_forecast net parse self coords (Some c) w = (Inr c, w)
         \<and> sent (snd (get_weekly_forecast net parse self coords (Some c) w)) = sent w"
  using assms by (simp add: get_weekly_forecast_cached)

theorem fresh_cache_short_circuits_witness:
  "is_expired world0 (cached_forecast (PyTimedelta 3600000000)) = Inr False
   \<and> get_weekly_forecast unreachable sample_parse sample_client white_house
        (Some (cached_forecast (PyTimedelta 3600000000))) world0 =
      (Inr (cached_forecast (PyTimedelta 3600000000)), world0)"
proof -
  have h: "is_expired world0 (cached_forecast (PyTimedelta 3600000000)) = Inr False"
    by (simp add: is_expired_def elapsed_exceeds_def world0_def cached_forecast_def)
  show ?thesis
    using h fresh_cache_short_circuits [OF h, of unreachable sample_parse sample_client white_house]
    by simp
qed

text \<open>With a \<^verbatim>\<open>timedelta\<close> as \<^verbatim>\<open>max_age\<close>, expiry is the comparison of the elapsed time.\<close>

lemma is_expired_timedelta:
  "max_age c = PyTimedelta d \<Longrightarrow> is_expired w c = Inr (clock w - created c > d)"
  by (simp add: is_expired_def elapsed_exceeds_def)

lemma LocationData_is_expired_timedelta:
  "loc_max_age l = PyTimedelta d \<Longrightarrow> LocationData_is_expired w l = Inr (clock w - loc_created l > d)"
  by (simp add: LocationData_is_expired_def elapsed_exceeds_def)

text \<open>
  C7 fails on the code. With an \<^verbatim>\<open>int\<close> as \<^verbatim>\<open>max_age\<close>, the declared type and
  the default \<^verbatim>\<open>0\<close>, \<open>is_expired\<close> of a \<open>WeeklyForecast\<close> and of a \<open>LocationData\<close>
  raises \<^verbatim>\<open>TypeError\<close> at any time; so it does for the objects the two constructors
  build with \<^verbatim>\<open>max_age = 0\<close>, checked a second later.
\<close>

theorem is_expired_raises_for_int_max_age:
  "is_expired w \<lparr>forecasts = fs, max_age = PyInt n, created = t\<rparr> = Inl TypeError
   \<and> LocationData_is_expired w (l\<lparr>loc_max_age := PyInt n\<rparr>) = Inl TypeError
   \<and> and_then (WeeklyForecast_init sample_parse (forecast_body [period_json]) (PyInt 0) world0)
        (is_expired (world0\<lparr>clock := clock world0 + 1000000\<rparr>)) = Inl TypeError
   \<and> and_then (LocationData_init points_body (PyInt 0) world0)
        (LocationData_is_expired (world0\<lparr>clock := clock world0 + 1000000\<rparr>)) = Inl TypeError"
  by (simp add: is_expired_def LocationData_is_expired_def elapsed_exceeds_def and_then_def
      WeeklyForecast_init_def LocationData_init_def forecast_body_def points_body_def
      period_json_def Forecast_init_def fromisoformat_def sample_parse_def)

text \<open>
  C8. A forecast returned by \<open>get_weekly_forecast\<close> on the path that issues requests
  has \<^verbatim>\<open>max_age\<close> equal to the default \<^verbatim>\<open>0\<close> and a creation time equal to the clock
  when the call returns.
\<close>

theorem fetched_forecast_has_default_max_age:
  assumes "get_weekly_forecast net parse self coords cached w = (Inr fc, w')"
    and "sent w' \<noteq> sent w"
  shows "max_age fc = PyInt 0 \<and> created fc = clock w'"
proof (cases "cached = None \<or> (\<exists>c. cached = Some c \<and> is_expired w c = Inr True)")
  case True
  obtain res w1 where loc: "get_location_data net self coords w = (res, w1)"
    by (cases "get_location_data net self coords w")
  from assms(1) show ?thesis
    unfolding get_weekly_forecast_fetch [OF True] loc
    by (auto simp add: Let_def split_def and_then_Inr dest: WeeklyForecast_init_fields
        split: sum.splits json.splits)
next
  case False
  then obtain c where c: "cached = Some c" and ne: "is_expired w c \<noteq> Inr True"
    by (cases cached) auto
  show ?thesis
  proof (cases "is_expired w c")
    case (Inl e)
    with assms(1) show ?thesis by (simp add: c get_weekly_forecast_raised)
  next
    case (Inr b)
    with ne have "is_expired w c = Inr False" by simp
    with assms show ?thesis by (simp add: c get_weekly_forecast_cached)
  qed
qed

theorem fetched_forecast_has_default_max_age_witness:
  "max_age (projr (fst (get_weekly_forecast
       (in_turn (Returns points_reply) (Returns forecast_reply))
       sample_parse sample_client white_house None world0))) = PyInt 0
   \<and> created (projr (fst (get_weekly_forecast
       (in_turn (Returns points_reply) (Returns forecast_reply))
       sample_parse sample_client white_house None world0))) = 1720080000500000
   \<and> clock (snd (get_weekly_forecast
       (in_turn (Returns points_reply) (Returns forecast_reply))
       sample_parse sample_client white_house None world0)) = 1720080000500000"
proof -
  have "sent \<lparr>clock = 1720080000500000,
       sent = [\<lparr>url = POINTS_API_URL_format (lat white_house) (long white_house), params = [],
                headers = [(''User-Agent'', user_agent sample_client)]\<rparr>,
               \<lparr>url = ''https://api.weather.gov/gridpoints/LWX/97,71/forecast'', params = [],
                headers = [(''User-Agent'', user_agent sample_client)]\<rparr>]\<rparr> \<noteq> sent world0"
    by (simp add: world0_def)
  from fetched_forecast_has_default_max_age [OF sample_weekly_forecast this]
  show ?thesis
    by (simp add: sample_weekly_forecast)
qed

subsection \<open>The User-Agent header\<close>

text \<open>
  C9. \<open>NWSClient_init\<close> raises \<^verbatim>\<open>AssertionError\<close> when the User-Agent string is
  missing or empty, and the constructor issues no request. A client it does return holds
  that non-empty string, and every request that \<open>get_location_data\<close> and
  \<open>get_weekly_forecast\<close> add to the requests sent carries it as the only header,
  \<^verbatim>\<open>User-Agent\<close>.
\<close>

theorem user_agent_required_and_sent:
  "(ua = None \<or> ua = Some [] \<longrightarrow>
      NWSClient_init ua = Inl (AssertionError ''The NWS API requires a User-Agent string!''))
   \<and> (\<forall>self. NWSClient_init ua = Inr self \<longrightarrow>
         ua = Some (user_agent self) \<and> user_agent self \<noteq> []
         \<and> list_all (\<lambda>rq. headers rq = [(''User-Agent'', user_agent self)])
              (drop (length (sent w)) (sent (snd (get_location_data net self coords w))))
         \<and> list_all (\<lambda>rq. headers rq = [(''User-Agent'', user_agent self)])
              (drop (length (sent w)) (sent (snd (get_weekly_forecast net parse self coords cached w)))))"
proof (intro conjI impI allI)
  assume "ua = None \<or> ua = Some []"
  then show "NWSClient_init ua = Inl (AssertionError ''The NWS API requires a User-Agent string!'')"
    by (auto simp add: NWSClient_init_def)
next
  fix self
  assume init: "NWSClient_init ua = Inr self"
  then show "ua = Some (user_agent self)" and "user_agent self \<noteq> []"
    by (auto simp add: NWSClient_init_def split: option.splits if_splits)
  show "list_all (\<lambda>rq. headers rq = [(''User-Agent'', user_agent self)])
          (drop (length (sent w)) (sent (snd (get_location_data net self coords w))))"
    by (simp add: get_location_data_sent)
  obtain rs where "sent (snd (get_weekly_forecast net parse self coords cached w)) = sent w @ rs"
    and "list_all (\<lambda>rq. headers rq = [(''User-Agent'', user_agent self)]) rs"
    using get_weekly_forecast_sent by blast
  then show "list_all (\<lambda>rq. headers rq = [(''User-Agent'', user_agent self)])
          (drop (length (sent w)) (sent (snd (get_weekly_forecast net parse self coords cached w))))"
    by simp
qed

theorem user_agent_required_and_sent_witness:
  "NWSClient_init None = Inl (AssertionError ''The NWS API requires a User-Agent string!'')
   \<and> NWSClient_init (Some []) = Inl (AssertionError ''The NWS API requires a User-Agent string!'')
   \<and> NWSClient_init (Some ''pynws-check (ops@example.org)'') = Inr sample_client
   \<and> length (sent (snd (get_weekly_forecast
         (in_turn (Returns points_reply) (Returns forecast_reply))
         sample_parse sample_client white_house None world0))) = 2
   \<and> list_all (\<lambda>rq. headers rq = [(''User-Agent'', ''pynws-check (ops@example.org)'')])
        (sent (snd (get_weekly_forecast
         (in_turn (Returns points_reply) (Returns forecast_reply))
         sample_parse sample_client white_house None world0)))"
proof -
  note t = user_agent_required_and_sent
  from t [of None]
  have 1: "NWSClient_init None = Inl (AssertionError ''The NWS API requires a User-Agent string!'')"
    by simp
  from t [of "Some []"]
  have 2: "NWSClient_init (Some []) = Inl (AssertionError ''The NWS API requires a User-Agent string!'')"
    by simp
  have 3: "NWSClient_init (Some ''pynws-check (ops@example.org)'') = Inr sample_client"
    by (simp add: NWSClient_init_def sample_client_def)
  from t [of "Some ''pynws-check (ops@example.org)''" world0
        "in_turn (Returns points_reply) (Returns forecast_reply)" white_house
        sample_parse None] 3
  have "list_all (\<lambda>rq. headers rq = [(''User-Agent'', user_agent sample_client)])
          (drop (length (sent world0)) (sent (snd (get_weekly_forecast
             (in_turn (Returns points_reply) (Returns forecast_reply))
             sample_parse sample_client white_house None world0))))"
    by blast
  moreover have "length (sent world0) = 0" and "user_agent sample_client = ''pynws-check (ops@example.org)''"
    by (simp_all add: world0_def sample_client_def)
  ultimately have 4: "list_all (\<lambda>rq. headers rq = [(''User-Agent'', ''pynws-check (ops@example.org)'')])
          (sent (snd (get_weekly_forecast
             (in_turn (Returns points_reply) (Returns forecast_reply))
             sample_parse sample_client white_house None world0)))"
    by simp
  have 5: "length (sent (snd (get_weekly_forecast
         (in_turn (Returns points_reply) (Returns forecast_reply))
         sample_parse sample_client white_house None world0))) = 2"
    unfolding sample_weekly_forecast by simp
  from 1 2 3 4 5 show ?thesis by simp
qed

subsection \<open>The first period\<close>

text \<open>
  C10. \<open>today\<close> returns the first forecast of a non-empty list and raises
  \<^verbatim>\<open>IndexError\<close> on an empty one; a \<open>WeeklyForecast\<close> constructed from a response
  whose \<^verbatim>\<open>properties.periods\<close> is the empty list has no forecasts, so \<open>today\<close>
  raises \<^verbatim>\<open>IndexError\<close> for it.
\<close>

theorem today_needs_a_period:
  "(forecasts fc = [] \<longrightarrow> today fc = Inl IndexError)
   \<and> (\<forall>f fs. forecasts fc = f # fs \<longrightarrow> today fc = Inr f)
   \<and> (\<forall>p. getitem j ''properties'' = Inr p \<and> getitem p ''periods'' = Inr (JArr []) \<longrightarrow>
         WeeklyForecast_init parse j age w = Inr \<lparr>forecasts = [], max_age = age, created = clock w\<rparr>
         \<and> and_then (WeeklyForecast_init parse j age w) today = Inl IndexError)"
  by (auto simp add: today_def WeeklyForecast_init_def and_then_def)

theorem today_needs_a_period_witness:
  "and_then (WeeklyForecast_init sample_parse (forecast_body []) (PyInt 0) world0) today = Inl IndexError
   \<and> today (cached_forecast (PyInt 0)) = Inr (sample_forecast (JInt 91) (JInt 60))"
proof -
  note t = today_needs_a_period
    [of "cached_forecast (PyInt 0)" "forecast_body []" sample_parse "PyInt 0" world0]
  have "getitem (forecast_body []) ''properties'' = Inr (JObj [(''periods'', JArr [])])
        \<and> getitem (JObj [(''periods'', JArr [])]) ''periods'' = Inr (JArr [])"
    by (simp add: forecast_body_def)
  with t have 1: "and_then (WeeklyForecast_init sample_parse (forecast_body []) (PyInt 0) world0) today
                  = Inl IndexError"
    by blast
  have "forecasts (cached_forecast (PyInt 0)) = [sample_forecast (JInt 91) (JInt 60)]"
    by (simp add: cached_forecast_def)
  with t have 2: "today (cached_forecast (PyInt 0)) = Inr (sample_forecast (JInt 91) (JInt 60))"
    by blast
  from 1 2 show ?thesis by simp
qed

end
